theory Spec2Isabelle
  imports Complex_Main
begin

section \<open>The ledger core of the banking service (q3/app)\<close>

text \<open>
  This theory embeds the account and transaction models, the transaction service
  (\<^verbatim>\<open>app/services/transaction_service.py\<close>) and the account update of the account
  service (\<^verbatim>\<open>app/services/account_service.py\<close>).

  Modelling decisions:
  \<^item> \<^verbatim>\<open>Decimal\<close> amounts are rationals: sums, differences and comparisons of decimals
    are exact as long as the operands stay within the 28 significant digits of the
    default decimal context. A value written to a \<^verbatim>\<open>Numeric(18, 2)\<close> column is rounded to
    two places by the database (PostgreSQL, as configured); a value too large for the
    column is one of the failures of a commit.
  \<^item> Python's \<^verbatim>\<open>int\<close> is \<open>int\<close>; a timestamp is a natural number read from a clock.
  \<^item> An exception is a value of type \<open>exn\<close>; a function that may raise returns
    \<open>exn + 'a\<close> together with the session it leaves behind.
  \<^item> The SQLAlchemy session is a unit of work over the two tables: the committed rows,
    the loaded objects with attribute changes not yet flushed, and the objects handed to
    \<^verbatim>\<open>db.add\<close>. What the outside world reads from (fresh identifiers, the clock, whether
    a commit goes through) is an explicit argument of type \<open>env\<close>, one per attempt.
  \<^item> Storage can fail where the source commits, and where it calls \<^verbatim>\<open>db.refresh\<close> after
    a commit that went through. The queries that start an operation are taken to succeed,
    and row locks (\<^verbatim>\<open>with_for_update\<close>) have no effect on a single session.
  \<^item> \<^verbatim>\<open>json.dumps\<close> is library code: it is the parameter \<open>dumps\<close>.
  \<^item> The waiting time between two attempts of the retry decorator is not modelled;
    the number of attempts is.
\<close>

subsection \<open>Models\<close>

datatype TransactionType = DEBIT | CREDIT

datatype TransactionStatus = PENDING | COMPLETED | FAILED | REVERSED

text \<open>\<^verbatim>\<open>class Account(Base, TimeStampedModel)\<close>. Field names shared with another
  class carry the prefix \<open>a_\<close>.\<close>

record Account =
  a_id :: string
  account_number :: string
  account_name :: string
  balance :: rat
  a_currency :: string
  is_active :: bool
  version :: int
  a_created_at :: "nat option"
  a_updated_at :: "nat option"

text \<open>\<^verbatim>\<open>class Transaction(Base, TimeStampedModel)\<close>, prefix \<open>t_\<close>. The column
  \<^verbatim>\<open>metadata\<close> holds JSON text. The timestamps of an object are \<^verbatim>\<open>None\<close> until its
  row is written.\<close>

record Transaction =
  t_id :: string
  t_account_id :: string
  t_transaction_type :: TransactionType
  t_amount :: rat
  t_currency :: string
  status :: TransactionStatus
  t_reference :: "string option"
  t_description :: "string option"
  t_metadata :: "string option"
  t_created_at :: "nat option"
  t_updated_at :: "nat option"

subsection \<open>Schemas\<close>

text \<open>A value of \<^verbatim>\<open>Dict[str, Any]\<close>: keys in insertion order.\<close>

datatype json =
  JNull | JBool bool | JInt int | JStr string | JArr "json list" | JObj "(string \<times> json) list"

type_synonym metadata = "(string \<times> json) list"

text \<open>\<^verbatim>\<open>class TransactionBase(BaseModel)\<close> with the field \<^verbatim>\<open>transaction_type\<close> that
  \<^verbatim>\<open>DebitCreate\<close> and \<^verbatim>\<open>CreditCreate\<close> add; prefix \<open>r_\<close>.\<close>

record TransactionBase =
  r_account_id :: string
  r_amount :: rat
  r_currency :: string
  r_reference :: "string option"
  r_description :: "string option"
  r_metadata :: "metadata option"
  r_transaction_type :: TransactionType

type_synonym DebitCreate = TransactionBase
type_synonym CreditCreate = TransactionBase

text \<open>\<^verbatim>\<open>class AccountUpdate(BaseModel)\<close>, prefix \<open>u_\<close>.\<close>

record AccountUpdate =
  u_account_name :: "string option"
  u_is_active :: "bool option"

subsection \<open>Exceptions and the environment\<close>

text \<open>\<^verbatim>\<open>IntegrityError\<close> and every other database error are subclasses of
  \<^verbatim>\<open>SQLAlchemyError\<close>.\<close>

datatype db_error = IntegrityError | OperationalError

datatype exn =
  HTTPException nat string
| SQLAlchemyError db_error
| AttributeError
| RetryError exn

fun is_SQLAlchemyError :: "exn \<Rightarrow> bool" where
  "is_SQLAlchemyError (SQLAlchemyError _) = True"
| "is_SQLAlchemyError _ = False"

text \<open>What the storage does with the commit of an attempt and with the \<^verbatim>\<open>db.refresh\<close> that
  follows it: both go through, the commit fails, or the commit goes through and the refresh
  fails.\<close>

datatype commit_result = CommitOk | CommitFails db_error | RefreshFails db_error

record env =
  uuid4 :: string
  utcnow :: nat
  commit_outcome :: commit_result

subsection \<open>The session\<close>

record Session =
  accounts :: "string \<rightharpoonup> Account"
  transactions :: "Transaction list"
  dirty_accounts :: "string \<rightharpoonup> Account"
  dirty_transactions :: "string \<rightharpoonup> Transaction"
  new :: "Transaction list"

text \<open>\<^verbatim>\<open>db.query(Account).filter(Account.id == k).first()\<close>: the loaded object if the
  session holds one, the committed row otherwise.\<close>

definition query_account :: "Session \<Rightarrow> string \<Rightarrow> Account option" where
  "query_account s k =
     (case dirty_accounts s k of Some a \<Rightarrow> Some a | None \<Rightarrow> accounts s k)"

text \<open>\<^verbatim>\<open>db.query(Transaction).filter(Transaction.id == k).first()\<close>. Objects that were
  only added are not found: the session does not flush before a query
  (\<^verbatim>\<open>autoflush=False\<close>).\<close>

definition query_transaction :: "Session \<Rightarrow> string \<Rightarrow> Transaction option" where
  "query_transaction s k =
     (case find (\<lambda>t. t_id t = k) (transactions s) of
        None \<Rightarrow> None
      | Some t \<Rightarrow> (case dirty_transactions s k of Some t' \<Rightarrow> Some t' | None \<Rightarrow> Some t))"

text \<open>\<^verbatim>\<open>db.add(obj)\<close>.\<close>

definition add :: "Transaction \<Rightarrow> Session \<Rightarrow> Session" where
  "add t s = s\<lparr>new := new s @ [t]\<rparr>"

text \<open>What a \<^verbatim>\<open>Numeric(precision=18, scale=2)\<close> column keeps of a value written to it:
  the value rounded to two places, ties away from zero.\<close>

definition numeric_18_2 :: "rat \<Rightarrow> rat" where
  "numeric_18_2 x =
     (if 0 \<le> x then of_int (round (x * 100)) / 100
      else - (of_int (round (- x * 100)) / 100))"

text \<open>The flush of a successful commit. A loaded row whose attributes changed is
  updated: the columns that changed are written, and \<^verbatim>\<open>updated_at\<close> takes the clock
  (\<^verbatim>\<open>onupdate=datetime.utcnow\<close>). An added object is inserted with both timestamps from
  the clock.\<close>

definition flush_account :: "nat \<Rightarrow> Account option \<Rightarrow> Account \<Rightarrow> Account" where
  "flush_account now row a =
     (if row = Some a then a
      else a\<lparr>balance := (if map_option balance row = Some (balance a) then balance a
                          else numeric_18_2 (balance a)),
             a_updated_at := Some now\<rparr>)"

definition flush_transaction :: "nat \<Rightarrow> Transaction \<Rightarrow> Transaction \<Rightarrow> Transaction" where
  "flush_transaction now row t = (if row = t then t else t\<lparr>t_updated_at := Some now\<rparr>)"

definition insert_transaction :: "nat \<Rightarrow> Transaction \<Rightarrow> Transaction" where
  "insert_transaction now t =
     t\<lparr>t_amount := numeric_18_2 (t_amount t),
       t_created_at := Some now, t_updated_at := Some now\<rparr>"

definition flush :: "nat \<Rightarrow> Session \<Rightarrow> Session" where
  "flush now s =
     s\<lparr>accounts := (\<lambda>k. case dirty_accounts s k of
                          None \<Rightarrow> accounts s k
                        | Some a \<Rightarrow> Some (flush_account now (accounts s k) a)),
       transactions :=
         map (\<lambda>t. case dirty_transactions s (t_id t) of
                     None \<Rightarrow> t
                   | Some t' \<Rightarrow> flush_transaction now t t') (transactions s)
         @ map (insert_transaction now) (new s),
       dirty_accounts := Map.empty,
       dirty_transactions := Map.empty,
       new := []\<rparr>"

text \<open>\<^verbatim>\<open>db.commit()\<close>: raises and leaves the pending state as it is, or flushes.\<close>

definition commit :: "env \<Rightarrow> Session \<Rightarrow> exn + Session" where
  "commit e s =
     (case commit_outcome e of
        CommitFails err \<Rightarrow> Inl (SQLAlchemyError err)
      | _ \<Rightarrow> Inr (flush (utcnow e) s))"

text \<open>\<^verbatim>\<open>db.refresh(obj)\<close> after a commit that went through: the exception it raises, if
  any. The object then has the values of its row.\<close>

definition refresh :: "env \<Rightarrow> exn option" where
  "refresh e =
     (case commit_outcome e of
        RefreshFails err \<Rightarrow> Some (SQLAlchemyError err)
      | _ \<Rightarrow> None)"

text \<open>\<^verbatim>\<open>db.rollback()\<close>: every pending change is dropped.\<close>

definition rollback :: "Session \<Rightarrow> Session" where
  "rollback s = s\<lparr>dirty_accounts := Map.empty, dirty_transactions := Map.empty, new := []\<rparr>"

subsection \<open>\<^verbatim>\<open>TransactionService\<close>\<close>

text \<open>The truth value of \<^verbatim>\<open>metadata\<close> in \<^verbatim>\<open>json.dumps(metadata) if metadata else None\<close>:
  \<^verbatim>\<open>None\<close> and the empty dict are false.\<close>

definition metadata_text :: "(metadata \<Rightarrow> string) \<Rightarrow> metadata option \<Rightarrow> string option" where
  "metadata_text dumps md =
     (case md of
        None \<Rightarrow> None
      | Some m \<Rightarrow> (if m = [] then None else Some (dumps m)))"

definition record_transaction ::
  "(metadata \<Rightarrow> string) \<Rightarrow> env \<Rightarrow> Session \<Rightarrow> TransactionType \<Rightarrow> string \<Rightarrow> rat \<Rightarrow> string
     \<Rightarrow> string option \<Rightarrow> string option \<Rightarrow> metadata option \<Rightarrow> Transaction \<times> Session" where
  "record_transaction dumps e db transaction_type account_id amount currency
       reference description md =
     (let transaction =
            \<lparr>t_id = uuid4 e,
             t_account_id = account_id,
             t_transaction_type = transaction_type,
             t_amount = amount,
             t_currency = currency,
             status = PENDING,
             t_reference = reference,
             t_description = description,
             t_metadata = metadata_text dumps md,
             t_created_at = None,
             t_updated_at = None\<rparr>
      in (transaction, add transaction db))"

text \<open>An attribute assignment on the object added last.\<close>

definition set_added_status :: "TransactionStatus \<Rightarrow> Session \<Rightarrow> Session" where
  "set_added_status st s =
     (case new s of
        [] \<Rightarrow> s
      | _ # _ \<Rightarrow> s\<lparr>new := butlast (new s) @ [(last (new s))\<lparr>status := st\<rparr>]\<rparr>)"

text \<open>\<^verbatim>\<open>_update_transaction_status\<close>. Its parameter \<^verbatim>\<open>status\<close> hides the module
  \<^verbatim>\<open>fastapi.status\<close>, so that \<^verbatim>\<open>status.HTTP_404_NOT_FOUND\<close> on the branch of a missing
  transaction is an attribute lookup on the enumeration member and raises
  \<^verbatim>\<open>AttributeError\<close>. The commit is not inside a \<^verbatim>\<open>try\<close>. After it,
  \<^verbatim>\<open>db.refresh\<close> reads the row again and raises a \<^verbatim>\<open>SQLAlchemyError\<close> if there is
  none.\<close>

definition update_transaction_status ::
  "env \<Rightarrow> Session \<Rightarrow> string \<Rightarrow> TransactionStatus \<Rightarrow> bool \<Rightarrow> (exn + Transaction) \<times> Session" where
  "update_transaction_status e db transaction_id st do_commit =
     (case query_transaction db transaction_id of
        None \<Rightarrow> (Inl AttributeError, db)
      | Some transaction \<Rightarrow>
          (let transaction' = transaction\<lparr>status := st\<rparr>;
               db1 = db\<lparr>dirty_transactions := (dirty_transactions db)(transaction_id \<mapsto> transaction')\<rparr>
           in if do_commit then
                (case commit e db1 of
                   Inl x \<Rightarrow> (Inl x, db1)
                 | Inr db2 \<Rightarrow>
                     (case refresh e of
                        Some x \<Rightarrow> (Inl x, db2)
                      | None \<Rightarrow>
                          (case query_transaction db2 transaction_id of
                             None \<Rightarrow> (Inl (SQLAlchemyError OperationalError), db2)
                           | Some row \<Rightarrow> (Inr row, db2))))
              else (Inr transaction', db1)))"

text \<open>The \<^verbatim>\<open>try\<close> block of \<^verbatim>\<open>debit_account\<close>. \<^verbatim>\<open>db.refresh(transaction)\<close> follows the
  commit inside the block: it raises, or the object takes the values of the row just
  written.\<close>

definition debit_account_try ::
  "(metadata \<Rightarrow> string) \<Rightarrow> env \<Rightarrow> Session \<Rightarrow> DebitCreate \<Rightarrow> (exn + Transaction) \<times> Session" where
  "debit_account_try dumps e db debit_data =
     (case query_account db (r_account_id debit_data) of
        None \<Rightarrow> (Inl (HTTPException 404 ''Account not found''), db)
      | Some account \<Rightarrow>
          if \<not> is_active account then
            (Inl (HTTPException 400 ''Account is inactive''), db)
          else if a_currency account \<noteq> r_currency debit_data then
            (Inl (HTTPException 400
               (''Currency mismatch. Account currency is '' @ a_currency account
                  @ '', transaction currency is '' @ r_currency debit_data)), db)
          else if balance account < r_amount debit_data then
            (Inl (HTTPException 400 ''Insufficient funds''), db)
          else
            (let (transaction, db1) =
                   record_transaction dumps e db DEBIT (a_id account) (r_amount debit_data)
                     (a_currency account) (r_reference debit_data)
                     (r_description debit_data) (r_metadata debit_data);
                 account' = account\<lparr>balance := balance account - r_amount debit_data,
                                    version := version account + 1\<rparr>;
                 db2 = db1\<lparr>dirty_accounts :=
                             (dirty_accounts db1)(r_account_id debit_data \<mapsto> account')\<rparr>;
                 db3 = set_added_status COMPLETED db2
             in case commit e db3 of
                  Inl x \<Rightarrow> (Inl x, db3)
                | Inr db4 \<Rightarrow>
                    (case refresh e of
                       Some x \<Rightarrow> (Inl x, db4)
                     | None \<Rightarrow>
                         (Inr (insert_transaction (utcnow e)
                                 (transaction\<lparr>status := COMPLETED\<rparr>)),
                          db4))))"

text \<open>The \<^verbatim>\<open>except\<close> clauses of \<^verbatim>\<open>debit_account\<close> and of \<^verbatim>\<open>credit_account\<close>.\<close>

fun handle_errors :: "(exn + Transaction) \<times> Session \<Rightarrow> (exn + Transaction) \<times> Session" where
  "handle_errors (Inr t, db) = (Inr t, db)"
| "handle_errors (Inl (HTTPException code detail), db) =
     (Inl (HTTPException code detail), rollback db)"
| "handle_errors (Inl (SQLAlchemyError err), db) =
     (Inl (HTTPException 500 ''Failed to process transaction due to database error''),
      rollback db)"
| "handle_errors (Inl x, db) = (Inl x, db)"

text \<open>The body of \<^verbatim>\<open>debit_account\<close>, without its decorator.\<close>

definition debit_account_body ::
  "(metadata \<Rightarrow> string) \<Rightarrow> env \<Rightarrow> Session \<Rightarrow> DebitCreate \<Rightarrow> (exn + Transaction) \<times> Session" where
  "debit_account_body dumps e db debit_data =
     handle_errors (debit_account_try dumps e db debit_data)"

text \<open>The \<^verbatim>\<open>try\<close> block of \<^verbatim>\<open>credit_account\<close>.\<close>

definition credit_account_try ::
  "(metadata \<Rightarrow> string) \<Rightarrow> env \<Rightarrow> Session \<Rightarrow> CreditCreate \<Rightarrow> (exn + Transaction) \<times> Session" where
  "credit_account_try dumps e db credit_data =
     (case query_account db (r_account_id credit_data) of
        None \<Rightarrow> (Inl (HTTPException 404 ''Account not found''), db)
      | Some account \<Rightarrow>
          if \<not> is_active account then
            (Inl (HTTPException 400 ''Account is inactive''), db)
          else if a_currency account \<noteq> r_currency credit_data then
            (Inl (HTTPException 400
               (''Currency mismatch. Account currency is '' @ a_currency account
                  @ '', transaction currency is '' @ r_currency credit_data)), db)
          else
            (let (transaction, db1) =
                   record_transaction dumps e db CREDIT (a_id account) (r_amount credit_data)
                     (a_currency account) (r_reference credit_data)
                     (r_description credit_data) (r_metadata credit_data);
                 account' = account\<lparr>balance := balance account + r_amount credit_data,
                                    version := version account + 1\<rparr>;
                 db2 = db1\<lparr>dirty_accounts :=
                             (dirty_accounts db1)(r_account_id credit_data \<mapsto> account')\<rparr>;
                 db3 = set_added_status COMPLETED db2
             in case commit e db3 of
                  Inl x \<Rightarrow> (Inl x, db3)
                | Inr db4 \<Rightarrow>
                    (case refresh e of
                       Some x \<Rightarrow> (Inl x, db4)
                     | None \<Rightarrow>
                         (Inr (insert_transaction (utcnow e)
                                 (transaction\<lparr>status := COMPLETED\<rparr>)),
                          db4))))"

definition credit_account_body ::
  "(metadata \<Rightarrow> string) \<Rightarrow> env \<Rightarrow> Session \<Rightarrow> CreditCreate \<Rightarrow> (exn + Transaction) \<times> Session" where
  "credit_account_body dumps e db credit_data =
     handle_errors (credit_account_try dumps e db credit_data)"

subsection \<open>The retry decorator\<close>

text \<open>\<^verbatim>\<open>@retry(stop=stop_after_attempt(m), retry=retry_if_exception_type(SQLAlchemyError), ...)\<close>.
  Attempt \<open>n\<close> (counted from 1) runs the function in the environment \<open>envs n\<close>. A result,
  or an exception that is no \<^verbatim>\<open>SQLAlchemyError\<close>, ends the loop and goes to the caller.
  A \<^verbatim>\<open>SQLAlchemyError\<close> ends it with \<^verbatim>\<open>RetryError\<close> once \<open>n\<close> has reached \<open>m\<close>, and starts
  attempt \<open>n + 1\<close> otherwise. The last component of the result is the number of attempts
  made.\<close>

function retry ::
  "int \<Rightarrow> (env \<Rightarrow> Session \<Rightarrow> (exn + 'a) \<times> Session) \<Rightarrow> nat \<Rightarrow> (nat \<Rightarrow> env) \<Rightarrow> Session
     \<Rightarrow> ((exn + 'a) \<times> Session) \<times> nat" where
  "retry m f n envs db =
     (case f (envs n) db of
        (Inr v, db') \<Rightarrow> ((Inr v, db'), n)
      | (Inl x, db') \<Rightarrow>
          if \<not> is_SQLAlchemyError x then ((Inl x, db'), n)
          else if m \<le> int n then ((Inl (RetryError x), db'), n)
          else retry m f (Suc n) envs db')"
  by pat_completeness auto
termination
  by (relation "measure (\<lambda>(m, f, n, envs, db). nat (m - int n))") auto

definition debit_account ::
  "int \<Rightarrow> (metadata \<Rightarrow> string) \<Rightarrow> (nat \<Rightarrow> env) \<Rightarrow> Session \<Rightarrow> DebitCreate
     \<Rightarrow> ((exn + Transaction) \<times> Session) \<times> nat" where
  "debit_account MAX_TRANSACTION_RETRIES dumps envs db debit_data =
     retry MAX_TRANSACTION_RETRIES (\<lambda>e db'. debit_account_body dumps e db' debit_data) 1 envs db"

definition credit_account ::
  "int \<Rightarrow> (metadata \<Rightarrow> string) \<Rightarrow> (nat \<Rightarrow> env) \<Rightarrow> Session \<Rightarrow> CreditCreate
     \<Rightarrow> ((exn + Transaction) \<times> Session) \<times> nat" where
  "credit_account MAX_TRANSACTION_RETRIES dumps envs db credit_data =
     retry MAX_TRANSACTION_RETRIES (\<lambda>e db'. credit_account_body dumps e db' credit_data) 1 envs db"

subsection \<open>\<^verbatim>\<open>AccountService\<close>\<close>

definition get_account :: "Session \<Rightarrow> string \<Rightarrow> exn + Account" where
  "get_account db account_id =
     (case query_account db account_id of
        None \<Rightarrow> Inl (HTTPException 404 ''Account not found'')
      | Some account \<Rightarrow> Inr account)"

text \<open>\<^verbatim>\<open>update_account\<close>. The commit and \<^verbatim>\<open>db.refresh(account)\<close> are in one \<^verbatim>\<open>try\<close>
  block whose only clause catches \<^verbatim>\<open>IntegrityError\<close>: any other database error leaves the
  function as it is, with no rollback. \<^verbatim>\<open>str(e)\<close> in the detail of the caught error is the
  database's message, the parameter \<open>msg\<close>.\<close>

definition update_account ::
  "string \<Rightarrow> env \<Rightarrow> Session \<Rightarrow> string \<Rightarrow> AccountUpdate \<Rightarrow> (exn + Account) \<times> Session" where
  "update_account msg e db account_id account_data =
     (case get_account db account_id of
        Inl x \<Rightarrow> (Inl x, db)
      | Inr account \<Rightarrow>
          (let account1 = (case u_account_name account_data of
                             None \<Rightarrow> account
                           | Some name \<Rightarrow> account\<lparr>account_name := name\<rparr>);
               account2 = (case u_is_active account_data of
                             None \<Rightarrow> account1
                           | Some b \<Rightarrow> account1\<lparr>is_active := b\<rparr>);
               account3 = account2\<lparr>version := version account2 + 1\<rparr>;
               db1 = db\<lparr>dirty_accounts := (dirty_accounts db)(account_id \<mapsto> account3)\<rparr>
           in case commit e db1 of
                Inr db2 \<Rightarrow>
                  (case refresh e of
                     None \<Rightarrow>
                       (Inr (flush_account (utcnow e) (accounts db1 account_id) account3), db2)
                   | Some (SQLAlchemyError IntegrityError) \<Rightarrow>
                       (Inl (HTTPException 400 (''Failed to update account: '' @ msg)),
                        rollback db2)
                   | Some x \<Rightarrow> (Inl x, db2))
              | Inl (SQLAlchemyError IntegrityError) \<Rightarrow>
                  (Inl (HTTPException 400 (''Failed to update account: '' @ msg)), rollback db1)
              | Inl x \<Rightarrow> (Inl x, db1)))"

subsection \<open>Requests\<close>

text \<open>The three endpoints that change an account. Each runs its service function on the
  session that \<^verbatim>\<open>get_db\<close> hands out and closes in its \<^verbatim>\<open>finally\<close>; closing drops what
  is still pending.\<close>

datatype request = Debit DebitCreate | Credit CreditCreate | Update string AccountUpdate

datatype response = TransactionResponse Transaction | AccountResponse Account

definition close :: "Session \<Rightarrow> Session" where
  "close db = rollback db"

definition serve ::
  "int \<Rightarrow> (metadata \<Rightarrow> string) \<Rightarrow> string \<Rightarrow> (nat \<Rightarrow> env) \<Rightarrow> Session \<Rightarrow> request
     \<Rightarrow> (exn + response) \<times> Session" where
  "serve m dumps msg envs db req =
     (case req of
        Debit debit_data \<Rightarrow>
          (case debit_account m dumps envs db debit_data of
             ((r, db'), n) \<Rightarrow> (map_sum id TransactionResponse r, close db'))
      | Credit credit_data \<Rightarrow>
          (case credit_account m dumps envs db credit_data of
             ((r, db'), n) \<Rightarrow> (map_sum id TransactionResponse r, close db'))
      | Update account_id account_data \<Rightarrow>
          (case update_account msg (envs 1) db account_id account_data of
             (r, db') \<Rightarrow> (map_sum id AccountResponse r, close db')))"

text \<open>A sequence of requests, each with the environment of its attempts.\<close>

fun run ::
  "int \<Rightarrow> (metadata \<Rightarrow> string) \<Rightarrow> string \<Rightarrow> Session \<Rightarrow> (request \<times> (nat \<Rightarrow> env)) list
     \<Rightarrow> (exn + response) list \<times> Session" where
  "run m dumps msg db [] = ([], db)"
| "run m dumps msg db ((req, envs) # rest) =
     (case serve m dumps msg envs db req of
        (r, db') \<Rightarrow> (case run m dumps msg db' rest of (rs, db'') \<Rightarrow> (r # rs, db'')))"

text \<open>The account a request is about, and the number of requests about account \<open>k\<close>
  that returned a result.\<close>

fun target :: "request \<Rightarrow> string" where
  "target (Debit d) = r_account_id d"
| "target (Credit d) = r_account_id d"
| "target (Update account_id u) = account_id"

fun successes :: "string \<Rightarrow> request list \<Rightarrow> (exn + response) list \<Rightarrow> nat" where
  "successes k (req # reqs) (Inr v # rs) =
     (if target req = k then Suc (successes k reqs rs) else successes k reqs rs)"
| "successes k (req # reqs) (Inl x # rs) = successes k reqs rs"
| "successes k _ _ = 0"

subsection \<open>Auxiliary notions\<close>

text \<open>The object that \<^verbatim>\<open>_record_transaction\<close> builds for an account and a request, and the
  session once the balance change and the completed transaction are pending.\<close>

definition pending_transaction ::
  "(metadata \<Rightarrow> string) \<Rightarrow> env \<Rightarrow> TransactionType \<Rightarrow> Account \<Rightarrow> TransactionBase \<Rightarrow> Transaction" where
  "pending_transaction dumps e ty a d =
     \<lparr>t_id = uuid4 e, t_account_id = a_id a, t_transaction_type = ty, t_amount = r_amount d,
      t_currency = a_currency a, status = PENDING, t_reference = r_reference d,
      t_description = r_description d, t_metadata = metadata_text dumps (r_metadata d),
      t_created_at = None, t_updated_at = None\<rparr>"

definition staged :: "Transaction \<Rightarrow> string \<Rightarrow> Account \<Rightarrow> Session \<Rightarrow> Session" where
  "staged t k a db =
     db\<lparr>dirty_accounts := (dirty_accounts db)(k \<mapsto> a),
        new := new db @ [t\<lparr>status := COMPLETED\<rparr>]\<rparr>"

subsection \<open>Test data\<close>

text \<open>The account of the fixture in \<^verbatim>\<open>app/tests/test_transactions.py\<close>, a database holding
  it and no transaction, the debit of the first test, and three environments: one where
  nothing fails, one whose first commit fails, and one whose commits go through and whose
  refreshes fail.\<close>

definition test_account :: Account where
  "test_account =
     \<lparr>a_id = ''acc-1'', account_number = ''TEST123456'', account_name = ''Test Account'',
      balance = 1000, a_currency = ''USD'', is_active = True, version = 1,
      a_created_at = Some 0, a_updated_at = Some 0\<rparr>"

definition test_db :: Session where
  "test_db =
     \<lparr>accounts = [''acc-1'' \<mapsto> test_account], transactions = [],
      dirty_accounts = Map.empty, dirty_transactions = Map.empty, new = []\<rparr>"

definition test_debit :: "rat \<Rightarrow> DebitCreate" where
  "test_debit amount =
     \<lparr>r_account_id = ''acc-1'', r_amount = amount, r_currency = ''USD'',
      r_reference = Some ''TEST-DEBIT-001'', r_description = Some ''Test debit transaction'',
      r_metadata = None, r_transaction_type = DEBIT\<rparr>"

definition test_credit :: "rat \<Rightarrow> CreditCreate" where
  "test_credit amount =
     \<lparr>r_account_id = ''acc-1'', r_amount = amount, r_currency = ''USD'',
      r_reference = None, r_description = None,
      r_metadata = None, r_transaction_type = CREDIT\<rparr>"

definition commits :: "nat \<Rightarrow> env" where
  "commits n = \<lparr>uuid4 = ''txn-'' @ replicate n (CHR ''i''), utcnow = 100 + n,
                commit_outcome = CommitOk\<rparr>"

definition fails_once :: "nat \<Rightarrow> env" where
  "fails_once n =
     \<lparr>uuid4 = ''txn-'' @ replicate n (CHR ''i''), utcnow = 100 + n,
      commit_outcome = (if n = 1 then CommitFails OperationalError else CommitOk)\<rparr>"

definition refresh_fails :: "nat \<Rightarrow> env" where
  "refresh_fails n =
     \<lparr>uuid4 = ''txn-'' @ replicate n (CHR ''i''), utcnow = 100 + n,
      commit_outcome = RefreshFails OperationalError\<rparr>"

text \<open>A stand-in for \<^verbatim>\<open>json.dumps\<close>: the keys of the dict.\<close>

definition test_dumps :: "metadata \<Rightarrow> string" where
  "test_dumps m = concat (map fst m)"

text \<open>A completed transaction and a database holding it; an update that sets nothing.\<close>

definition test_transaction :: Transaction where
  "test_transaction =
     \<lparr>t_id = ''txn-0'', t_account_id = ''acc-1'', t_transaction_type = DEBIT, t_amount = 100,
      t_currency = ''USD'', status = COMPLETED, t_reference = None, t_description = None,
      t_metadata = None, t_created_at = Some 50, t_updated_at = Some 50\<rparr>"

definition test_ledger :: Session where
  "test_ledger = test_db\<lparr>transactions := [test_transaction]\<rparr>"


definition test_update :: AccountUpdate where
  "test_update = \<lparr>u_account_name = None, u_is_active = None\<rparr>"

section \<open>Properties\<close>

subsection \<open>The decorator never starts a second attempt\<close>

lemma handle_errors_not_sql: "fst (handle_errors r) = Inl x \<Longrightarrow> \<not> is_SQLAlchemyError x"
  by (induction r rule: handle_errors.induct) auto

lemma retry_once:
  assumes "\<And>x. fst (f (envs n) db) = Inl x \<Longrightarrow> \<not> is_SQLAlchemyError x"
  shows "retry m f n envs db = (f (envs n) db, n)"
  using assms by (cases "f (envs n) db") (auto split: sum.splits)

lemma debit_account_once:
  "debit_account m dumps envs db d = (debit_account_body dumps (envs 1) db d, 1)"
  unfolding debit_account_def
  by (rule retry_once) (simp add: debit_account_body_def handle_errors_not_sql)

lemma credit_account_once:
  "credit_account m dumps envs db d = (credit_account_body dumps (envs 1) db d, 1)"
  unfolding credit_account_def
  by (rule retry_once) (simp add: credit_account_body_def handle_errors_not_sql)

subsection \<open>The session\<close>

lemma rollback_fields:
  "accounts (rollback s) = accounts s"
  "transactions (rollback s) = transactions s"
  "dirty_accounts (rollback s) = Map.empty"
  "dirty_transactions (rollback s) = Map.empty"
  "new (rollback s) = []"
  by (simp_all add: rollback_def)

lemma rollback_staged: "rollback (staged t k a db) = rollback db"
  by (simp add: staged_def rollback_def)

lemma set_added_status_last:
  "set_added_status st s =
     (if new s = [] then s
      else s\<lparr>new := butlast (new s) @ [(last (new s))\<lparr>status := st\<rparr>]\<rparr>)"
  by (simp add: set_added_status_def split: list.splits)

lemma accounts_flush_staged:
  "accounts (flush now (staged t k a' db)) j =
     (if j = k then Some (flush_account now (accounts db k) a')
      else (case dirty_accounts db j of
              None \<Rightarrow> accounts db j
            | Some a \<Rightarrow> Some (flush_account now (accounts db j) a)))"
  by (simp add: flush_def staged_def split: option.splits)

lemma transactions_flush_staged:
  "transactions (flush now (staged t k a' db)) =
     transactions (flush now db) @ [insert_transaction now (t\<lparr>status := COMPLETED\<rparr>)]"
  by (simp add: flush_def staged_def)

lemma pending_flush:
  "dirty_accounts (flush now s) = Map.empty"
  "dirty_transactions (flush now s) = Map.empty"
  "new (flush now s) = []"
  by (simp_all add: flush_def)

lemma flush_account_fields:
  "a_id (flush_account now r a) = a_id a"
  "account_number (flush_account now r a) = account_number a"
  "account_name (flush_account now r a) = account_name a"
  "a_currency (flush_account now r a) = a_currency a"
  "is_active (flush_account now r a) = is_active a"
  "version (flush_account now r a) = version a"
  "a_created_at (flush_account now r a) = a_created_at a"
  by (simp_all add: flush_account_def)

lemma rollback_flush: "rollback (flush now s) = flush now s"
  by (simp add: rollback_def flush_def)

subsection \<open>Rounding\<close>

lemma numeric_18_2_nonneg: "0 \<le> x \<Longrightarrow> 0 \<le> numeric_18_2 x"
proof -
  assume "0 \<le> x"
  then have "round (0::rat) \<le> round (x * 100)"
    by (intro round_mono) simp
  then have "0 \<le> round (x * 100)" by simp
  with \<open>0 \<le> x\<close> show ?thesis by (simp add: numeric_18_2_def)
qed

lemma numeric_18_2_of_int: "numeric_18_2 (of_int n) = of_int n"
proof -
  have r: "round (of_int n * 100 :: rat) = n * 100"
    using round_of_int [of "n * 100", where ?'a = rat] by simp
  have r': "round (- (of_int n * 100) :: rat) = - (n * 100)"
    using round_of_int [of "- (n * 100)", where ?'a = rat] by simp
  show ?thesis
    by (simp add: numeric_18_2_def r r')
qed

lemma numeric_18_2_numeral: "numeric_18_2 (numeral w) = numeral w"
  using numeric_18_2_of_int [of "numeral w"] by simp

lemma numeric_18_2_zero: "numeric_18_2 0 = 0"
  using numeric_18_2_of_int [of 0] by simp

lemma balance_flush_account:
  "numeric_18_2 (balance a) = balance a \<Longrightarrow> balance (flush_account now r a) = balance a"
  by (simp add: flush_account_def)

lemma balance_flush_account_nonneg:
  "0 \<le> balance a \<Longrightarrow> 0 \<le> balance (flush_account now r a)"
  by (simp add: flush_account_def numeric_18_2_nonneg)

subsection \<open>Debit and credit, outcome by outcome\<close>

lemma debit_try_eq:
  "debit_account_try dumps e db d =
     (case query_account db (r_account_id d) of
        None \<Rightarrow> (Inl (HTTPException 404 ''Account not found''), db)
      | Some a \<Rightarrow>
          if \<not> is_active a then (Inl (HTTPException 400 ''Account is inactive''), db)
          else if a_currency a \<noteq> r_currency d then
            (Inl (HTTPException 400
               (''Currency mismatch. Account currency is '' @ a_currency a
                  @ '', transaction currency is '' @ r_currency d)), db)
          else if balance a < r_amount d then
            (Inl (HTTPException 400 ''Insufficient funds''), db)
          else (case commit_outcome e of
                  CommitFails err \<Rightarrow>
                    (Inl (SQLAlchemyError err),
                     staged (pending_transaction dumps e DEBIT a d) (r_account_id d)
                       (a\<lparr>balance := balance a - r_amount d, version := version a + 1\<rparr>) db)
                | CommitOk \<Rightarrow>
                    (Inr (insert_transaction (utcnow e)
                            ((pending_transaction dumps e DEBIT a d)\<lparr>status := COMPLETED\<rparr>)),
                     flush (utcnow e)
                       (staged (pending_transaction dumps e DEBIT a d) (r_account_id d)
                          (a\<lparr>balance := balance a - r_amount d, version := version a + 1\<rparr>)
                          db))
                | RefreshFails err \<Rightarrow>
                    (Inl (SQLAlchemyError err),
                     flush (utcnow e)
                       (staged (pending_transaction dumps e DEBIT a d) (r_account_id d)
                          (a\<lparr>balance := balance a - r_amount d, version := version a + 1\<rparr>)
                          db))))"
  unfolding debit_account_try_def
  by (simp add: split_beta Let_def record_transaction_def add_def staged_def
        pending_transaction_def set_added_status_last commit_def refresh_def
      split: option.splits commit_result.splits)

lemma credit_try_eq:
  "credit_account_try dumps e db d =
     (case query_account db (r_account_id d) of
        None \<Rightarrow> (Inl (HTTPException 404 ''Account not found''), db)
      | Some a \<Rightarrow>
          if \<not> is_active a then (Inl (HTTPException 400 ''Account is inactive''), db)
          else if a_currency a \<noteq> r_currency d then
            (Inl (HTTPException 400
               (''Currency mismatch. Account currency is '' @ a_currency a
                  @ '', transaction currency is '' @ r_currency d)), db)
          else (case commit_outcome e of
                  CommitFails err \<Rightarrow>
                    (Inl (SQLAlchemyError err),
                     staged (pending_transaction dumps e CREDIT a d) (r_account_id d)
                       (a\<lparr>balance := balance a + r_amount d, version := version a + 1\<rparr>) db)
                | CommitOk \<Rightarrow>
                    (Inr (insert_transaction (utcnow e)
                            ((pending_transaction dumps e CREDIT a d)\<lparr>status := COMPLETED\<rparr>)),
                     flush (utcnow e)
                       (staged (pending_transaction dumps e CREDIT a d) (r_account_id d)
                          (a\<lparr>balance := balance a + r_amount d, version := version a + 1\<rparr>)
                          db))
                | RefreshFails err \<Rightarrow>
                    (Inl (SQLAlchemyError err),
                     flush (utcnow e)
                       (staged (pending_transaction dumps e CREDIT a d) (r_account_id d)
                          (a\<lparr>balance := balance a + r_amount d, version := version a + 1\<rparr>)
                          db))))"
  unfolding credit_account_try_def
  by (simp add: split_beta Let_def record_transaction_def add_def staged_def
        pending_transaction_def set_added_status_last commit_def refresh_def
      split: option.splits commit_result.splits)

lemma debit_body_eq:
  "debit_account_body dumps e db d =
     (case query_account db (r_account_id d) of
        None \<Rightarrow> (Inl (HTTPException 404 ''Account not found''), rollback db)
      | Some a \<Rightarrow>
          if \<not> is_active a then (Inl (HTTPException 400 ''Account is inactive''), rollback db)
          else if a_currency a \<noteq> r_currency d then
            (Inl (HTTPException 400
               (''Currency mismatch. Account currency is '' @ a_currency a
                  @ '', transaction currency is '' @ r_currency d)), rollback db)
          else if balance a < r_amount d then
            (Inl (HTTPException 400 ''Insufficient funds''), rollback db)
          else (case commit_outcome e of
                  CommitFails err \<Rightarrow>
                    (Inl (HTTPException 500
                       ''Failed to process transaction due to database error''),
                     rollback db)
                | CommitOk \<Rightarrow>
                    (Inr (insert_transaction (utcnow e)
                            ((pending_transaction dumps e DEBIT a d)\<lparr>status := COMPLETED\<rparr>)),
                     flush (utcnow e)
                       (staged (pending_transaction dumps e DEBIT a d) (r_account_id d)
                          (a\<lparr>balance := balance a - r_amount d, version := version a + 1\<rparr>)
                          db))
                | RefreshFails err \<Rightarrow>
                    (Inl (HTTPException 500
                       ''Failed to process transaction due to database error''),
                     flush (utcnow e)
                       (staged (pending_transaction dumps e DEBIT a d) (r_account_id d)
                          (a\<lparr>balance := balance a - r_amount d, version := version a + 1\<rparr>)
                          db))))"
  by (simp add: debit_account_body_def debit_try_eq rollback_staged rollback_flush
      split: option.splits commit_result.splits)

lemma credit_body_eq:
  "credit_account_body dumps e db d =
     (case query_account db (r_account_id d) of
        None \<Rightarrow> (Inl (HTTPException 404 ''Account not found''), rollback db)
      | Some a \<Rightarrow>
          if \<not> is_active a then (Inl (HTTPException 400 ''Account is inactive''), rollback db)
          else if a_currency a \<noteq> r_currency d then
            (Inl (HTTPException 400
               (''Currency mismatch. Account currency is '' @ a_currency a
                  @ '', transaction currency is '' @ r_currency d)), rollback db)
          else (case commit_outcome e of
                  CommitFails err \<Rightarrow>
                    (Inl (HTTPException 500
                       ''Failed to process transaction due to database error''),
                     rollback db)
                | CommitOk \<Rightarrow>
                    (Inr (insert_transaction (utcnow e)
                            ((pending_transaction dumps e CREDIT a d)\<lparr>status := COMPLETED\<rparr>)),
                     flush (utcnow e)
                       (staged (pending_transaction dumps e CREDIT a d) (r_account_id d)
                          (a\<lparr>balance := balance a + r_amount d, version := version a + 1\<rparr>)
                          db))
                | RefreshFails err \<Rightarrow>
                    (Inl (HTTPException 500
                       ''Failed to process transaction due to database error''),
                     flush (utcnow e)
                       (staged (pending_transaction dumps e CREDIT a d) (r_account_id d)
                          (a\<lparr>balance := balance a + r_amount d, version := version a + 1\<rparr>)
                          db))))"
  by (simp add: credit_account_body_def credit_try_eq rollback_staged rollback_flush
      split: option.splits commit_result.splits)

lemma test_data:
  "query_account test_db ''acc-1'' = Some test_account"
  "accounts test_db ''acc-1'' = Some test_account"
  "dirty_accounts test_db = Map.empty"
  "r_account_id (test_debit x) = ''acc-1''"
  "r_currency (test_debit x) = ''USD''"
  "r_amount (test_debit x) = x"
  "r_account_id (test_credit x) = ''acc-1''"
  "r_currency (test_credit x) = ''USD''"
  "r_amount (test_credit x) = x"
  "is_active test_account"
  "a_currency test_account = ''USD''"
  "balance test_account = 1000"
  "version test_account = 1"
  "commit_outcome (commits n) = CommitOk"
  "commit_outcome (refresh_fails n) = RefreshFails OperationalError"
  "commit_outcome (fails_once 1) = CommitFails OperationalError"
  "commit_outcome (fails_once (Suc 0)) = CommitFails OperationalError"
  by (simp_all add: query_account_def test_db_def test_account_def test_debit_def
        test_credit_def commits_def fails_once_def refresh_fails_def)

subsection \<open>Claims\<close>

text \<open>
  C2. A storage failure at the commit of a debit or of a credit rolls the whole unit back:
  the caller gets the error of status 500, the rows of both tables are those from before
  the call (no transaction row, the balance and the version as they were), and nothing
  is left pending in the session.
\<close>

theorem commit_failure_rolls_back:
  assumes "commit_outcome (envs 1) = CommitFails err"
    and "query_account db (r_account_id d) = Some a"
    and "is_active a" and "a_currency a = r_currency d"
  shows "(r_amount d \<le> balance a \<longrightarrow>
            debit_account m dumps envs db d =
              ((Inl (HTTPException 500 ''Failed to process transaction due to database error''),
                rollback db), 1))
       \<and> credit_account m dumps envs db d =
              ((Inl (HTTPException 500 ''Failed to process transaction due to database error''),
                rollback db), 1)
       \<and> accounts (rollback db) = accounts db
       \<and> transactions (rollback db) = transactions db
       \<and> dirty_accounts (rollback db) = Map.empty
       \<and> dirty_transactions (rollback db) = Map.empty
       \<and> new (rollback db) = []"
  using assms
  by (simp add: debit_account_once credit_account_once debit_body_eq credit_body_eq
        rollback_fields)

theorem commit_failure_rolls_back_witness:
  "commit_outcome (fails_once 1) = CommitFails OperationalError
   \<and> query_account test_db (r_account_id (test_debit 100)) = Some test_account
   \<and> is_active test_account
   \<and> a_currency test_account = r_currency (test_debit 100)
   \<and> r_amount (test_debit 100) \<le> balance test_account
   \<and> debit_account 3 test_dumps fails_once test_db (test_debit 100) =
        ((Inl (HTTPException 500 ''Failed to process transaction due to database error''),
          rollback test_db), 1)
   \<and> credit_account 3 test_dumps fails_once test_db (test_debit 100) =
        ((Inl (HTTPException 500 ''Failed to process transaction due to database error''),
          rollback test_db), 1)
   \<and> accounts (rollback test_db) = accounts test_db
   \<and> transactions (rollback test_db) = transactions test_db"
  using commit_failure_rolls_back
    [of fails_once OperationalError test_db "test_debit 100" test_account 3 test_dumps]
  by (simp add: test_data)


text \<open>
  C6. The scenario of the first test. For an active account with balance 1000.00 in USD, a
  debit of 100.00 USD whose commit and refresh go through returns, after one attempt, a
  transaction of type DEBIT and status COMPLETED with amount 100.00 and the currency of
  the account; the account's row then has balance 900.00 and a version one higher.
\<close>

theorem debit_scenario:
  assumes "query_account db (r_account_id d) = Some a"
    and "is_active a" and "balance a = 1000" and "a_currency a = ''USD''"
    and "r_amount d = 100" and "r_currency d = ''USD''"
    and "commit_outcome (envs 1) = CommitOk"
  shows "\<exists>t db' a'.
           debit_account m dumps envs db d = ((Inr t, db'), 1)
         \<and> t_transaction_type t = DEBIT \<and> status t = COMPLETED
         \<and> t_amount t = 100 \<and> t_currency t = a_currency a
         \<and> accounts db' (r_account_id d) = Some a'
         \<and> balance a' = 900 \<and> version a' = version a + 1"
  using assms
  by (simp add: debit_account_once debit_body_eq accounts_flush_staged flush_account_fields
        balance_flush_account numeric_18_2_numeral insert_transaction_def
        pending_transaction_def)

theorem debit_scenario_witness:
  "query_account test_db (r_account_id (test_debit 100)) = Some test_account
   \<and> is_active test_account \<and> balance test_account = 1000
   \<and> a_currency test_account = ''USD''
   \<and> r_amount (test_debit 100) = 100 \<and> r_currency (test_debit 100) = ''USD''
   \<and> commit_outcome (commits 1) = CommitOk
   \<and> (\<exists>t db' a'.
           debit_account 3 test_dumps commits test_db (test_debit 100) = ((Inr t, db'), 1)
         \<and> t_transaction_type t = DEBIT \<and> status t = COMPLETED
         \<and> t_amount t = 100 \<and> t_currency t = ''USD''
         \<and> accounts db' ''acc-1'' = Some a'
         \<and> balance a' = 900 \<and> version a' = 2)"
  using debit_scenario [of test_db "test_debit 100" test_account commits 3 test_dumps]
  by (simp add: test_data)

text \<open>
  C8. A debit of exactly the balance of an active account in the right currency, whose
  commit and refresh go through, returns a transaction and leaves the balance 0; the
  refusal for insufficient funds is returned if and only if the balance is strictly below
  the amount.
\<close>

theorem debit_whole_balance:
  assumes "query_account db (r_account_id d) = Some a"
    and "is_active a" and "a_currency a = r_currency d"
    and "commit_outcome (envs 1) = CommitOk"
  shows "(r_amount d = balance a \<longrightarrow>
           (\<exists>t db' a'. debit_account m dumps envs db d = ((Inr t, db'), 1)
              \<and> accounts db' (r_account_id d) = Some a' \<and> balance a' = 0))
       \<and> (fst (fst (debit_account m dumps envs db d)) = Inl (HTTPException 400 ''Insufficient funds'')
            \<longleftrightarrow> balance a < r_amount d)"
  using assms
  by (simp add: debit_account_once debit_body_eq accounts_flush_staged flush_account_fields
        balance_flush_account numeric_18_2_zero)

theorem debit_whole_balance_witness:
  "query_account test_db (r_account_id (test_debit 1000)) = Some test_account
   \<and> is_active test_account \<and> a_currency test_account = r_currency (test_debit 1000)
   \<and> commit_outcome (commits 1) = CommitOk
   \<and> r_amount (test_debit 1000) = balance test_account
   \<and> (\<exists>t db' a'. debit_account 3 test_dumps commits test_db (test_debit 1000) = ((Inr t, db'), 1)
              \<and> accounts db' ''acc-1'' = Some a' \<and> balance a' = 0)"
  using debit_whole_balance [of test_db "test_debit 1000" test_account commits 3 test_dumps]
  by (simp add: test_data)

text \<open>
  C4. A debit or a credit that ends in one of the business errors (status 404 or 400: account
  not found, inactive, currency mismatch, insufficient funds) raised it in its \<^verbatim>\<open>try\<close> block
  with the session as it was received; afterwards the rows of both tables are those from
  before the call, nothing is pending, and exactly one attempt was made.
\<close>

theorem business_rule_failure_no_mutation:
  assumes "code = 404 \<or> code = 400"
  shows "(debit_account m dumps envs db d = ((Inl (HTTPException code detail), db'), n) \<longrightarrow>
            debit_account_try dumps (envs 1) db d = (Inl (HTTPException code detail), db)
          \<and> accounts db' = accounts db \<and> transactions db' = transactions db
          \<and> new db' = [] \<and> n = 1)
       \<and> (credit_account m dumps envs db d = ((Inl (HTTPException code detail), db'), n) \<longrightarrow>
            credit_account_try dumps (envs 1) db d = (Inl (HTTPException code detail), db)
          \<and> accounts db' = accounts db \<and> transactions db' = transactions db
          \<and> new db' = [] \<and> n = 1)"
proof (intro conjI impI)
  assume r: "debit_account m dumps envs db d = ((Inl (HTTPException code detail), db'), n)"
  then have b: "debit_account_body dumps (envs 1) db d = (Inl (HTTPException code detail), db')"
    and n: "n = 1"
    by (auto simp: debit_account_once)
  from b assms have "db' = rollback db"
    by (auto simp: debit_body_eq split: option.splits if_splits commit_result.splits)
  then show "accounts db' = accounts db" "transactions db' = transactions db" "new db' = []"
    by (simp_all add: rollback_fields)
  from b assms show "debit_account_try dumps (envs 1) db d = (Inl (HTTPException code detail), db)"
    by (auto simp: debit_body_eq debit_try_eq split: option.splits if_splits commit_result.splits)
  from n show "n = 1" .
next
  assume r: "credit_account m dumps envs db d = ((Inl (HTTPException code detail), db'), n)"
  then have b: "credit_account_body dumps (envs 1) db d = (Inl (HTTPException code detail), db')"
    and n: "n = 1"
    by (auto simp: credit_account_once)
  from b assms have "db' = rollback db"
    by (auto simp: credit_body_eq split: option.splits if_splits commit_result.splits)
  then show "accounts db' = accounts db" "transactions db' = transactions db" "new db' = []"
    by (simp_all add: rollback_fields)
  from b assms show "credit_account_try dumps (envs 1) db d = (Inl (HTTPException code detail), db)"
    by (auto simp: credit_body_eq credit_try_eq split: option.splits if_splits commit_result.splits)
  from n show "n = 1" .
qed


theorem business_rule_failure_no_mutation_witness:
  "((400::nat) = 404 \<or> (400::nat) = 400)
   \<and> debit_account 3 test_dumps commits test_db (test_debit 2000) =
        ((Inl (HTTPException 400 ''Insufficient funds''), rollback test_db), 1)
   \<and> debit_account_try test_dumps (commits 1) test_db (test_debit 2000) =
        (Inl (HTTPException 400 ''Insufficient funds''), test_db)
   \<and> accounts (rollback test_db) = accounts test_db
   \<and> transactions (rollback test_db) = transactions test_db
   \<and> new (rollback test_db) = []
   \<and> credit_account 3 test_dumps commits test_db ((test_credit 50)\<lparr>r_account_id := ''acc-2''\<rparr>) =
        ((Inl (HTTPException 404 ''Account not found''), rollback test_db), 1)
   \<and> credit_account_try test_dumps (commits 1) test_db ((test_credit 50)\<lparr>r_account_id := ''acc-2''\<rparr>) =
        (Inl (HTTPException 404 ''Account not found''), test_db)"
proof -
  have d: "debit_account 3 test_dumps commits test_db (test_debit 2000) =
        ((Inl (HTTPException 400 ''Insufficient funds''), rollback test_db), 1)"
    by (simp add: debit_account_once debit_body_eq test_data)
  have c: "credit_account 3 test_dumps commits test_db ((test_credit 50)\<lparr>r_account_id := ''acc-2''\<rparr>) =
        ((Inl (HTTPException 404 ''Account not found''), rollback test_db), 1)"
    by (simp add: credit_account_once credit_body_eq query_account_def test_db_def)
  show ?thesis
    using d c
      business_rule_failure_no_mutation [where code = 400 and m = 3 and dumps = test_dumps
        and envs = commits and db = test_db and d = "test_debit 2000"
        and detail = "''Insufficient funds''" and db' = "rollback test_db" and n = 1]
      business_rule_failure_no_mutation [where code = 404 and m = 3 and dumps = test_dumps
        and envs = commits and db = test_db and d = "(test_credit 50)\<lparr>r_account_id := ''acc-2''\<rparr>"
        and detail = "''Account not found''" and db' = "rollback test_db" and n = 1]
    by simp
qed

text \<open>
  C1. If no account, committed or loaded, has a negative balance, a debit or a credit of a
  positive amount leaves no committed account with a negative balance, whatever its
  outcome; and a debit that returns a transaction found the amount at most the balance.
\<close>

theorem balance_never_negative:
  assumes inv: "\<forall>k a. accounts db k = Some a \<or> dirty_accounts db k = Some a \<longrightarrow> 0 \<le> balance a"
    and pos: "0 < r_amount d"
  shows "(debit_account m dumps envs db d = ((r, db'), n) \<longrightarrow>
            (\<forall>k a. accounts db' k = Some a \<longrightarrow> 0 \<le> balance a)
          \<and> (\<forall>t. r = Inr t \<longrightarrow>
                (\<exists>a. query_account db (r_account_id d) = Some a \<and> r_amount d \<le> balance a)))
       \<and> (credit_account m dumps envs db d = ((r, db'), n) \<longrightarrow>
            (\<forall>k a. accounts db' k = Some a \<longrightarrow> 0 \<le> balance a))"
proof -
  have q: "0 \<le> balance a" if "query_account db k = Some a" for k a
    using that inv by (auto simp: query_account_def split: option.splits)
  have keep: "\<forall>k a. accounts (rollback db) k = Some a \<longrightarrow> 0 \<le> balance a"
    using inv by (simp add: rollback_fields)
  have fl: "\<forall>j b. accounts (flush now (staged t k a' db)) j = Some b \<longrightarrow> 0 \<le> balance b"
    if "0 \<le> balance a'" for now t k a'
    using that inv
    by (auto simp: accounts_flush_staged balance_flush_account_nonneg
        split: if_splits option.splits)
  show ?thesis
  proof (intro conjI impI)
    assume "debit_account m dumps envs db d = ((r, db'), n)"
    then have b: "debit_account_body dumps (envs 1) db d = (r, db')"
      by (auto simp: debit_account_once)
    from b have "db' = rollback db
        \<or> (\<exists>a now t. \<not> balance a < r_amount d
              \<and> db' = flush now (staged t (r_account_id d)
                     (a\<lparr>balance := balance a - r_amount d, version := version a + 1\<rparr>) db))"
      by (auto simp: debit_body_eq split: option.splits if_splits commit_result.splits)
    then show "\<forall>k a. accounts db' k = Some a \<longrightarrow> 0 \<le> balance a"
    proof (elim disjE exE conjE)
      assume "db' = rollback db"
      with keep show ?thesis by simp
    next
      fix a now t
      assume le: "\<not> balance a < r_amount d"
        and eq: "db' = flush now (staged t (r_account_id d)
                     (a\<lparr>balance := balance a - r_amount d, version := version a + 1\<rparr>) db)"
      from le have "0 \<le> balance (a\<lparr>balance := balance a - r_amount d, version := version a + 1\<rparr>)"
        by simp
      from fl [OF this] eq show ?thesis by simp
    qed
    from b show "\<forall>t. r = Inr t \<longrightarrow>
                (\<exists>a. query_account db (r_account_id d) = Some a \<and> r_amount d \<le> balance a)"
      by (auto simp: debit_body_eq split: option.splits if_splits commit_result.splits)
  next
    assume "credit_account m dumps envs db d = ((r, db'), n)"
    then have b: "credit_account_body dumps (envs 1) db d = (r, db')"
      by (auto simp: credit_account_once)
    from b have "db' = rollback db
        \<or> (\<exists>a now t. query_account db (r_account_id d) = Some a
              \<and> db' = flush now (staged t (r_account_id d)
                     (a\<lparr>balance := balance a + r_amount d, version := version a + 1\<rparr>) db))"
      by (auto simp: credit_body_eq split: option.splits if_splits commit_result.splits)
    then show "\<forall>k a. accounts db' k = Some a \<longrightarrow> 0 \<le> balance a"
    proof (elim disjE exE conjE)
      assume "db' = rollback db"
      with keep show ?thesis by simp
    next
      fix a now t
      assume qa: "query_account db (r_account_id d) = Some a"
        and eq: "db' = flush now (staged t (r_account_id d)
                     (a\<lparr>balance := balance a + r_amount d, version := version a + 1\<rparr>) db)"
      from q [OF qa] pos
      have "0 \<le> balance (a\<lparr>balance := balance a + r_amount d, version := version a + 1\<rparr>)"
        by simp
      from fl [OF this] eq show ?thesis by simp
    qed
  qed
qed

theorem balance_never_negative_witness:
  "0 < r_amount (test_debit 100)
   \<and> (\<exists>a. accounts (snd (fst (debit_account 3 test_dumps commits test_db (test_debit 100))))
              ''acc-1'' = Some a \<and> 0 \<le> balance a)
   \<and> (\<exists>a. accounts (snd (fst (credit_account 3 test_dumps commits test_db (test_credit 100))))
              ''acc-1'' = Some a \<and> 0 \<le> balance a)"
proof -
  have inv: "\<forall>k a. accounts test_db k = Some a \<or> dirty_accounts test_db k = Some a
               \<longrightarrow> 0 \<le> balance a"
    by (auto simp: test_db_def test_account_def split: if_splits)
  have pos: "0 < r_amount (test_debit 100)" "0 < r_amount (test_credit 100)"
    by (simp_all add: test_data)
  have d: "\<exists>a. accounts (snd (fst (debit_account 3 test_dumps commits test_db (test_debit 100))))
              ''acc-1'' = Some a"
    by (simp add: debit_account_once debit_body_eq accounts_flush_staged test_data)
  have c: "\<exists>a. accounts (snd (fst (credit_account 3 test_dumps commits test_db (test_credit 100))))
              ''acc-1'' = Some a"
    by (simp add: credit_account_once credit_body_eq accounts_flush_staged test_data)
  show ?thesis
    using pos d c
      balance_never_negative [OF inv pos(1), where m = 3 and dumps = test_dumps and envs = commits
        and r = "fst (fst (debit_account 3 test_dumps commits test_db (test_debit 100)))"
        and db' = "snd (fst (debit_account 3 test_dumps commits test_db (test_debit 100)))"
        and n = "snd (debit_account 3 test_dumps commits test_db (test_debit 100))"]
      balance_never_negative [OF inv pos(2), where m = 3 and dumps = test_dumps and envs = commits
        and r = "fst (fst (credit_account 3 test_dumps commits test_db (test_credit 100)))"
        and db' = "snd (fst (credit_account 3 test_dumps commits test_db (test_credit 100)))"
        and n = "snd (credit_account 3 test_dumps commits test_db (test_credit 100))"]
    by auto
qed

lemma retry_again:
  assumes "f (envs n) db = (Inl (SQLAlchemyError err), db1)" and "int n < m"
  shows "retry m f n envs db = retry m f (Suc n) envs db1"
  using assms by simp

lemma retry_exhausted:
  assumes "f (envs n) db = (Inl (SQLAlchemyError err), db1)" and "m \<le> int n"
  shows "retry m f n envs db = ((Inl (RetryError (SQLAlchemyError err)), db1), n)"
  using assms by simp

text \<open>
  C3. The decorator retries on \<^verbatim>\<open>SQLAlchemyError\<close>, but the function it wraps turns every
  such error into the \<^verbatim>\<open>HTTPException\<close> of status 500 before the decorator sees it. With at
  most three attempts allowed and a storage failure at the first commit only, the debit and
  the credit stop after one attempt with that error, although the operation run again on
  the session they leave would have gone through.
\<close>

theorem transient_failure_not_retried:
  "debit_account 3 test_dumps fails_once test_db (test_debit 100) =
     ((Inl (HTTPException 500 ''Failed to process transaction due to database error''),
       rollback test_db), 1)
   \<and> credit_account 3 test_dumps fails_once test_db (test_credit 100) =
     ((Inl (HTTPException 500 ''Failed to process transaction due to database error''),
       rollback test_db), 1)
   \<and> commit_outcome (fails_once 2) = CommitOk
   \<and> \<not> isl (fst (debit_account_body test_dumps (fails_once 2) (rollback test_db) (test_debit 100)))
   \<and> \<not> isl (fst (credit_account_body test_dumps (fails_once 2) (rollback test_db)
                    (test_credit 100)))"
  by (simp add: debit_account_once credit_account_once debit_body_eq credit_body_eq test_data
        query_account_def rollback_def test_db_def test_account_def fails_once_def)

text \<open>
  C10. The transaction that a debit or a credit returns is a row of the table afterwards,
  and its metadata is the serialization of the caller's dict when that dict has an entry and
  null when the dict is empty or absent; a call with an empty dict and the same call
  without metadata have the same outcome.
\<close>

theorem metadata_stored:
  "(debit_account m dumps envs db d = ((Inr t, db'), n) \<longrightarrow>
      t \<in> set (transactions db')
    \<and> t_metadata t = (case r_metadata d of
                        None \<Rightarrow> None
                      | Some md \<Rightarrow> if md = [] then None else Some (dumps md)))
   \<and> (credit_account m dumps envs db d = ((Inr t, db'), n) \<longrightarrow>
      t \<in> set (transactions db')
    \<and> t_metadata t = (case r_metadata d of
                        None \<Rightarrow> None
                      | Some md \<Rightarrow> if md = [] then None else Some (dumps md)))
   \<and> debit_account m dumps envs db (d\<lparr>r_metadata := Some []\<rparr>)
       = debit_account m dumps envs db (d\<lparr>r_metadata := None\<rparr>)
   \<and> credit_account m dumps envs db (d\<lparr>r_metadata := Some []\<rparr>)
       = credit_account m dumps envs db (d\<lparr>r_metadata := None\<rparr>)"
proof (intro conjI impI)
  assume "debit_account m dumps envs db d = ((Inr t, db'), n)"
  then have b: "debit_account_body dumps (envs 1) db d = (Inr t, db')"
    by (auto simp: debit_account_once)
  from b show "t \<in> set (transactions db')"
    by (auto simp: debit_body_eq transactions_flush_staged
        split: option.splits if_splits commit_result.splits)
  from b show "t_metadata t = (case r_metadata d of
                        None \<Rightarrow> None
                      | Some md \<Rightarrow> if md = [] then None else Some (dumps md))"
    by (auto simp: debit_body_eq insert_transaction_def pending_transaction_def metadata_text_def
        split: option.splits if_splits commit_result.splits)
next
  assume "credit_account m dumps envs db d = ((Inr t, db'), n)"
  then have b: "credit_account_body dumps (envs 1) db d = (Inr t, db')"
    by (auto simp: credit_account_once)
  from b show "t \<in> set (transactions db')"
    by (auto simp: credit_body_eq transactions_flush_staged
        split: option.splits if_splits commit_result.splits)
  from b show "t_metadata t = (case r_metadata d of
                        None \<Rightarrow> None
                      | Some md \<Rightarrow> if md = [] then None else Some (dumps md))"
    by (auto simp: credit_body_eq insert_transaction_def pending_transaction_def metadata_text_def
        split: option.splits if_splits commit_result.splits)
next
  show "debit_account m dumps envs db (d\<lparr>r_metadata := Some []\<rparr>)
       = debit_account m dumps envs db (d\<lparr>r_metadata := None\<rparr>)"
    by (simp add: debit_account_once debit_body_eq pending_transaction_def metadata_text_def
        split: option.splits commit_result.splits)
  show "credit_account m dumps envs db (d\<lparr>r_metadata := Some []\<rparr>)
       = credit_account m dumps envs db (d\<lparr>r_metadata := None\<rparr>)"
    by (simp add: credit_account_once credit_body_eq pending_transaction_def metadata_text_def
        split: option.splits commit_result.splits)
qed

theorem metadata_stored_witness:
  "\<exists>t db'.
     debit_account 3 test_dumps commits test_db
       ((test_debit 100)\<lparr>r_metadata := Some [(''source'', JStr ''test'')]\<rparr>) = ((Inr t, db'), 1)
   \<and> t \<in> set (transactions db')
   \<and> t_metadata t = Some ''source''"
proof -
  let ?d = "(test_debit 100)\<lparr>r_metadata := Some [(''source'', JStr ''test'')]\<rparr>"
  have "\<exists>t db'. debit_account 3 test_dumps commits test_db ?d = ((Inr t, db'), 1)"
    by (simp add: debit_account_once debit_body_eq query_account_def test_db_def
          test_account_def test_debit_def commits_def)
  then obtain t db' where e: "debit_account 3 test_dumps commits test_db ?d = ((Inr t, db'), 1)"
    by blast
  from metadata_stored [of 3 test_dumps commits test_db ?d t db' 1] e
  have "t \<in> set (transactions db')" and "t_metadata t = Some ''source''"
    by (simp_all add: test_debit_def test_dumps_def)
  with e show ?thesis by blast
qed

lemma version_bump_neq: "a\<lparr>version := version a + 1\<rparr> \<noteq> (a::Account)"
proof
  assume "a\<lparr>version := version a + 1\<rparr> = a"
  then have "version (a\<lparr>version := version a + 1\<rparr>) = version a" by simp
  then show False by simp
qed

text \<open>
  C9. An update with neither a name nor an active flag, on an account whose row is the one
  loaded and with a commit and a refresh that go through, returns the account with the
  version one higher and \<^verbatim>\<open>updated_at\<close> set to the clock, and stores it; the account number, the
  balance, the currency, the name and the active flag are those from before.
\<close>

theorem empty_update_is_a_mutation:
  assumes "accounts db k = Some a" and "dirty_accounts db k = None"
    and "u_account_name u = None" and "u_is_active u = None"
    and "commit_outcome e = CommitOk"
  shows "\<exists>a' db'.
           update_account msg e db k u = (Inr a', db')
         \<and> accounts db' k = Some a'
         \<and> a' = a\<lparr>version := version a + 1, a_updated_at := Some (utcnow e)\<rparr>
         \<and> version a' = version a + 1 \<and> a_updated_at a' = Some (utcnow e)
         \<and> account_number a' = account_number a \<and> balance a' = balance a
         \<and> a_currency a' = a_currency a \<and> account_name a' = account_name a
         \<and> is_active a' = is_active a"
  using assms version_bump_neq [of a]
  by (simp add: update_account_def get_account_def query_account_def commit_def refresh_def
        flush_def flush_account_def Let_def)

theorem empty_update_is_a_mutation_witness:
  "accounts test_db ''acc-1'' = Some test_account
   \<and> dirty_accounts test_db ''acc-1'' = None
   \<and> u_account_name test_update = None \<and> u_is_active test_update = None
   \<and> commit_outcome (commits 1) = CommitOk
   \<and> (\<exists>db'. update_account ''x'' (commits 1) test_db ''acc-1'' test_update =
               (Inr (test_account\<lparr>version := 2, a_updated_at := Some 101\<rparr>), db')
            \<and> accounts db' ''acc-1'' = Some (test_account\<lparr>version := 2, a_updated_at := Some 101\<rparr>))"
proof -
  have h: "accounts test_db ''acc-1'' = Some test_account"
    "dirty_accounts test_db ''acc-1'' = None"
    "u_account_name test_update = None" "u_is_active test_update = None"
    "commit_outcome (commits 1) = CommitOk"
    by (simp_all add: test_data test_update_def)
  have v: "version test_account + 1 = 2" "utcnow (commits 1) = 101"
    by (simp_all add: test_data commits_def)
  from empty_update_is_a_mutation [OF h, of "''x''"] h v show ?thesis
    by auto
qed

lemma find_map_same:
  assumes "\<And>x. P (f x) = P x"
  shows "find P (map f xs) = map_option f (find P xs)"
  using assms by (induction xs) simp_all

lemma find_append_Some: "find P xs = Some x \<Longrightarrow> find P (xs @ ys) = Some x"
  by (induction xs) (auto split: if_splits)

lemma find_id: "find (\<lambda>t. t_id t = k) xs = Some t \<Longrightarrow> t_id t = k"
  by (induction xs) (auto split: if_splits)

lemma t_id_flush_transaction: "t_id (flush_transaction now r t) = t_id t"
  by (simp add: flush_transaction_def)

lemma status_flush_transaction: "status (flush_transaction now r t) = status t"
  by (simp add: flush_transaction_def)

lemma flush_transaction_frame:
  "(flush_transaction now t (t\<lparr>status := st\<rparr>))\<lparr>t_updated_at := t_updated_at t\<rparr>
     = t\<lparr>status := st\<rparr>"
  by (cases t) (simp add: flush_transaction_def)

lemma query_after_status_flush:
  assumes that: "t_id t' = k"
    and "find (\<lambda>r. t_id r = k) (transactions db) = Some t"
  shows "query_transaction
           (flush now (db\<lparr>dirty_transactions := [k \<mapsto> t']\<rparr>)) k
         = Some (flush_transaction now t t')"
proof -
  let ?f = "\<lambda>r. case [k \<mapsto> t'] (t_id r) of None \<Rightarrow> r | Some t'' \<Rightarrow> flush_transaction now r t''"
  have pres: "(t_id (?f r) = k) = (t_id r = k)" for r
    using that by (simp add: t_id_flush_transaction)
  have "find (\<lambda>r. t_id r = k) (map ?f (transactions db)) = Some (?f t)"
    using find_map_same [of "\<lambda>r. t_id r = k" ?f, OF pres] assms(2) by simp
  moreover have "?f t = flush_transaction now t t'"
    using find_id [OF assms(2)] by simp
  ultimately have "find (\<lambda>r. t_id r = k)
       (map ?f (transactions db) @ map (insert_transaction now) (new db))
     = Some (flush_transaction now t t')"
    by (simp add: find_append_Some)
  then show ?thesis
    by (simp add: query_transaction_def flush_def)
qed

text \<open>
  C7, as the code has it. For a stored transaction and any requested status, the status
  update with a commit and a refresh that go through stores and returns the transaction
  with the requested status, whatever the status was; nothing else changes but \<^verbatim>\<open>updated_at\<close>.
\<close>

theorem status_update_is_unconditional:
  assumes "find (\<lambda>r. t_id r = k) (transactions db) = Some t"
    and "dirty_transactions db = Map.empty"
    and "commit_outcome e = CommitOk"
  shows "\<exists>t' db'.
           update_transaction_status e db k st True = (Inr t', db')
         \<and> query_transaction db' k = Some t'
         \<and> status t' = st
         \<and> t'\<lparr>t_updated_at := t_updated_at t\<rparr> = t\<lparr>status := st\<rparr>"
proof -
  have q: "query_transaction db k = Some t"
    using assms by (simp add: query_transaction_def)
  have id: "t_id (t\<lparr>status := st\<rparr>) = k"
    using find_id [OF assms(1)] by simp
  have fl: "query_transaction (flush (utcnow e) (db\<lparr>dirty_transactions := [k \<mapsto> t\<lparr>status := st\<rparr>]\<rparr>)) k
         = Some (flush_transaction (utcnow e) t (t\<lparr>status := st\<rparr>))"
    using query_after_status_flush [OF id assms(1)] .
  have eq: "update_transaction_status e db k st True
     = (Inr (flush_transaction (utcnow e) t (t\<lparr>status := st\<rparr>)),
        flush (utcnow e) (db\<lparr>dirty_transactions := [k \<mapsto> t\<lparr>status := st\<rparr>]\<rparr>))"
    using q assms(2,3) fl
    by (simp add: update_transaction_status_def commit_def refresh_def Let_def)
  show ?thesis
    using eq fl
    by (simp add: status_flush_transaction flush_transaction_frame)
qed

theorem status_update_is_unconditional_witness:
  "find (\<lambda>r. t_id r = ''txn-0'') (transactions test_ledger) = Some test_transaction
   \<and> dirty_transactions test_ledger = Map.empty
   \<and> commit_outcome (commits 1) = CommitOk
   \<and> (\<exists>t' db'.
           update_transaction_status (commits 1) test_ledger ''txn-0'' FAILED True = (Inr t', db')
         \<and> query_transaction db' ''txn-0'' = Some t'
         \<and> status t' = FAILED)"
proof -
  have f: "find (\<lambda>r. t_id r = ''txn-0'') (transactions test_ledger) = Some test_transaction"
    by (simp add: test_ledger_def test_transaction_def)
  have d: "dirty_transactions test_ledger = Map.empty"
    by (simp add: test_ledger_def test_db_def)
  have c: "commit_outcome (commits 1) = CommitOk"
    by (simp add: test_data)
  from status_update_is_unconditional [OF f d c, of FAILED] f d c show ?thesis
    by blast
qed

text \<open>
  C7, as the spec has it, fails: a completed transaction is set back to pending.
\<close>

theorem completed_set_back_to_pending:
  "map status (transactions test_ledger) = [COMPLETED]
   \<and> \<not> isl (fst (update_transaction_status (commits 1) test_ledger ''txn-0'' PENDING True))
   \<and> map status
        (transactions (snd (update_transaction_status (commits 1) test_ledger ''txn-0'' PENDING True)))
      = [PENDING]"
  by (simp add: update_transaction_status_def query_transaction_def commit_def refresh_def
        flush_def flush_transaction_def test_ledger_def test_db_def test_transaction_def commits_def Let_def)

lemma close_fields:
  "accounts (close s) = accounts s"
  "dirty_accounts (close s) = Map.empty"
  by (simp_all add: close_def rollback_def)

lemma accounts_flush_staged_clean:
  assumes "dirty_accounts db = Map.empty"
  shows "accounts (flush now (staged t k a' db)) j =
           (if j = k then Some (flush_account now (accounts db k) a') else accounts db j)"
  using assms by (simp add: accounts_flush_staged)

lemma debit_step:
  assumes clean: "dirty_accounts db = Map.empty" and row: "accounts db k = Some a"
    and res: "debit_account m dumps envs db d = ((r, db'), n)"
  shows "\<exists>a'. accounts db' k = Some a'
           \<and> (version a' = version a \<or> r_account_id d = k \<and> version a' = version a + 1)
           \<and> (\<not> isl r \<and> r_account_id d = k \<longrightarrow> version a' = version a + 1)"
proof -
  from res have b: "debit_account_body dumps (envs 1) db d = (r, db')"
    by (auto simp: debit_account_once)
  have q: "query_account db j = accounts db j" for j
    using clean by (simp add: query_account_def)
  from b row show ?thesis
    by (auto simp: debit_body_eq q rollback_fields accounts_flush_staged_clean [OF clean]
          flush_account_fields
        split: option.splits if_splits commit_result.splits)
qed

lemma credit_step:
  assumes clean: "dirty_accounts db = Map.empty" and row: "accounts db k = Some a"
    and res: "credit_account m dumps envs db d = ((r, db'), n)"
  shows "\<exists>a'. accounts db' k = Some a'
           \<and> (version a' = version a \<or> r_account_id d = k \<and> version a' = version a + 1)
           \<and> (\<not> isl r \<and> r_account_id d = k \<longrightarrow> version a' = version a + 1)"
proof -
  from res have b: "credit_account_body dumps (envs 1) db d = (r, db')"
    by (auto simp: credit_account_once)
  have q: "query_account db j = accounts db j" for j
    using clean by (simp add: query_account_def)
  from b row show ?thesis
    by (auto simp: credit_body_eq q rollback_fields accounts_flush_staged_clean [OF clean]
          flush_account_fields
        split: option.splits if_splits commit_result.splits)
qed

lemma update_step:
  assumes clean: "dirty_accounts db = Map.empty" and row: "accounts db k = Some a"
    and res: "update_account msg e db j u = (r, db')"
  shows "\<exists>a'. accounts db' k = Some a'
           \<and> (version a' = version a \<or> j = k \<and> version a' = version a + 1)
           \<and> (\<not> isl r \<and> j = k \<longrightarrow> version a' = version a + 1)"
  using assms
  by (auto simp: update_account_def get_account_def query_account_def commit_def refresh_def
        flush_def rollback_fields flush_account_fields Let_def
      split: option.splits if_splits commit_result.splits db_error.splits)

lemma serve_step:
  assumes clean: "dirty_accounts db = Map.empty" and row: "accounts db k = Some a"
    and res: "serve m dumps msg envs db req = (r, db')"
  shows "dirty_accounts db' = Map.empty
       \<and> (\<exists>a'. accounts db' k = Some a'
             \<and> (version a' = version a \<or> target req = k \<and> version a' = version a + 1)
             \<and> (\<not> isl r \<and> target req = k \<longrightarrow> version a' = version a + 1))"
proof (cases req)
  case (Debit d)
  obtain r0 db0 n where e: "debit_account m dumps envs db d = ((r0, db0), n)"
    by (metis prod.exhaust)
  with res Debit have "r = map_sum id TransactionResponse r0" "db' = close db0"
    by (simp_all add: serve_def)
  with debit_step [OF clean row e] Debit show ?thesis
    by (cases r0) (auto simp: close_fields)
next
  case (Credit d)
  obtain r0 db0 n where e: "credit_account m dumps envs db d = ((r0, db0), n)"
    by (metis prod.exhaust)
  with res Credit have "r = map_sum id TransactionResponse r0" "db' = close db0"
    by (simp_all add: serve_def)
  with credit_step [OF clean row e] Credit show ?thesis
    by (cases r0) (auto simp: close_fields)
next
  case (Update j u)
  obtain r0 db0 where e: "update_account msg (envs 1) db j u = (r0, db0)"
    by (metis prod.exhaust)
  with res Update have "r = map_sum id AccountResponse r0" "db' = close db0"
    by (simp_all add: serve_def)
  with update_step [OF clean row e] Update show ?thesis
    by (cases r0) (auto simp: close_fields)
qed

text \<open>What holds of the version over a sequence of requests: it grows by at least the
  number of requests about the account that returned a result, and by at most the number
  of requests about the account.\<close>

lemma version_bounds:
  assumes "dirty_accounts db = Map.empty" and "accounts db k = Some a"
    and "run m dumps msg db reqs = (rs, db')"
  shows "\<exists>a'. accounts db' k = Some a'
           \<and> version a + int (successes k (map fst reqs) rs) \<le> version a'
           \<and> version a' \<le> version a + int (length (filter (\<lambda>p. target (fst p) = k) reqs))"
  using assms
proof (induction reqs arbitrary: db a rs db')
  case Nil
  then show ?case by simp
next
  case (Cons p reqs)
  obtain req envs where p: "p = (req, envs)" by (cases p)
  obtain r db1 where s: "serve m dumps msg envs db req = (r, db1)" by (metis prod.exhaust)
  obtain rs1 db2 where t: "run m dumps msg db1 reqs = (rs1, db2)" by (metis prod.exhaust)
  from Cons.prems(3) p s t have rs: "rs = r # rs1" and db': "db' = db2"
    by simp_all
  from serve_step [OF Cons.prems(1,2) s]
  obtain a1 where clean1: "dirty_accounts db1 = Map.empty"
    and row1: "accounts db1 k = Some a1"
    and v1: "version a1 = version a \<or> target req = k \<and> version a1 = version a + 1"
    and v2: "\<not> isl r \<and> target req = k \<longrightarrow> version a1 = version a + 1"
    by blast
  from Cons.IH [OF clean1 row1 t]
  obtain a' where row': "accounts db2 k = Some a'"
    and lo: "version a1 + int (successes k (map fst reqs) rs1) \<le> version a'"
    and hi: "version a' \<le> version a1 + int (length (filter (\<lambda>p. target (fst p) = k) reqs))"
    by blast
  have su: "int (successes k (map fst (p # reqs)) rs)
      = (if target req = k \<and> \<not> isl r then 1 else 0) + int (successes k (map fst reqs) rs1)"
    using p rs by (cases r) simp_all
  have le: "int (length (filter (\<lambda>p. target (fst p) = k) (p # reqs)))
      = (if target req = k then 1 else 0) + int (length (filter (\<lambda>p. target (fst p) = k) reqs))"
    using p by simp
  from v1 v2 lo hi su le row' db' show ?case
    by (auto split: if_splits)
qed

text \<open>
  C5. A debit or an update whose commit goes through and whose \<^verbatim>\<open>db.refresh\<close> then fails
  ends in an error, and the version of the account has changed from 1 to 2: a request that
  failed has changed the version, and after no successful request the version is not the
  initial one.
\<close>

theorem failed_request_changes_version:
  "map_option version (accounts test_db ''acc-1'') = Some 1
   \<and> fst (fst (debit_account 3 test_dumps refresh_fails test_db (test_debit 100)))
       = Inl (HTTPException 500 ''Failed to process transaction due to database error'')
   \<and> map_option version
        (accounts (snd (fst (debit_account 3 test_dumps refresh_fails test_db (test_debit 100))))
           ''acc-1'') = Some 2
   \<and> fst (update_account ''x'' (refresh_fails 1) test_db ''acc-1'' test_update)
       = Inl (SQLAlchemyError OperationalError)
   \<and> map_option version
        (accounts (snd (update_account ''x'' (refresh_fails 1) test_db ''acc-1'' test_update))
           ''acc-1'') = Some 2
   \<and> successes ''acc-1'' [Debit (test_debit 100)]
        (fst (run 3 test_dumps ''x'' test_db [(Debit (test_debit 100), refresh_fails)])) = 0
   \<and> map_option version
        (accounts (snd (run 3 test_dumps ''x'' test_db [(Debit (test_debit 100), refresh_fails)]))
           ''acc-1'') = Some 2"
proof -
  have d: "debit_account 3 test_dumps refresh_fails test_db (test_debit 100)
     = ((Inl (HTTPException 500 ''Failed to process transaction due to database error''),
         flush (utcnow (refresh_fails 1))
           (staged (pending_transaction test_dumps (refresh_fails 1) DEBIT test_account
                      (test_debit 100)) ''acc-1''
              (test_account\<lparr>balance := 900, version := 2\<rparr>) test_db)), 1)"
    by (simp add: debit_account_once debit_body_eq test_data)
  have u: "update_account ''x'' (refresh_fails 1) test_db ''acc-1'' test_update
     = (Inl (SQLAlchemyError OperationalError),
        flush (utcnow (refresh_fails 1))
          (test_db\<lparr>dirty_accounts := [''acc-1'' \<mapsto> test_account\<lparr>version := 2\<rparr>]\<rparr>))"
    by (simp add: update_account_def get_account_def commit_def refresh_def Let_def test_data
          test_update_def)
  have v: "map_option version (accounts (flush now
              (test_db\<lparr>dirty_accounts := [''acc-1'' \<mapsto> test_account\<lparr>version := 2\<rparr>]\<rparr>))
              ''acc-1'') = Some 2" for now
    by (simp add: flush_def flush_account_fields)
  show ?thesis
    using d u v
    by (simp add: serve_def close_fields accounts_flush_staged flush_account_fields
          test_data)
qed

end
